theory Spec2Isabelle
  imports Complex_Main
begin

section \<open>Data model\<close>

text \<open>
  The notebook computes with numpy arrays of floats. The embedding idealises floats as
  real numbers; a column vector of shape 3x1 is a triple, a 3x3 matrix is a triple of rows.
  A motion frame is a Python dict from joint name to a list of floats: an association list
  read with \<open>map_of\<close> and written with \<open>dict_set\<close>.
\<close>

type_synonym vec3 = "real \<times> real \<times> real"
type_synonym mat3 = "vec3 \<times> vec3 \<times> vec3"
type_synonym limit = "real \<times> real"
type_synonym frame = "(string \<times> real list) list"

datatype error = KeyError string | IndexError | ValueError | TypeError | AttributeError | LinAlgError

fun dict_set :: "('k \<times> 'v) list \<Rightarrow> 'k \<Rightarrow> 'v \<Rightarrow> ('k \<times> 'v) list" where
  "dict_set [] k v = [(k, v)]"
| "dict_set ((k', v') # rest) k v =
     (if k' = k then (k, v) # rest else (k', v') # dict_set rest k v)"

text \<open>
  \<open>class Joint\<close>. The fields are those that \<open>__init__\<close> assigns, without \<open>parent\<close>:
  the skeleton is a tree, a joint owns its \<open>children\<close>, and the only reads of
  \<open>self.parent\<close> in \<open>set_motion\<close> are of the matrix and coordinate that the parent has
  just assigned before it calls its children, so the parent's fresh state is handed down
  as an argument (\<open>None\<close> when the joint has no parent). \<open>coordinate\<close> and \<open>matrix\<close>
  are \<open>None\<close> until a frame is applied.
\<close>

datatype joint = Joint
  (name: string)
  (direction: vec3)
  (length_j: real)
  (C: mat3)
  (Cinv: mat3)
  (limits: "limit \<times> limit \<times> limit")
  (children: "joint list")
  (coordinate: "vec3 option")
  (matrix: "mat3 option")

section \<open>Array operations\<close>

definition row_dot :: "vec3 \<Rightarrow> vec3 \<Rightarrow> real" where
  "row_dot u v = (case u of (a, b, c) \<Rightarrow> case v of (x, y, z) \<Rightarrow> a * x + b * y + c * z)"

definition col :: "mat3 \<Rightarrow> nat \<Rightarrow> vec3" where
  "col m k = (case m of ((a0, a1, a2), (b0, b1, b2), (c0, c1, c2)) \<Rightarrow>
     if k = 0 then (a0, b0, c0) else if k = 1 then (a1, b1, c1) else (a2, b2, c2))"

definition dot_vec :: "mat3 \<Rightarrow> vec3 \<Rightarrow> vec3" where
  "dot_vec m v = (case m of (r0, r1, r2) \<Rightarrow> (row_dot r0 v, row_dot r1 v, row_dot r2 v))"

definition dot :: "mat3 \<Rightarrow> mat3 \<Rightarrow> mat3" where
  "dot m n = (case m of (r0, r1, r2) \<Rightarrow>
     ((row_dot r0 (col n 0), row_dot r0 (col n 1), row_dot r0 (col n 2)),
      (row_dot r1 (col n 0), row_dot r1 (col n 1), row_dot r1 (col n 2)),
      (row_dot r2 (col n 0), row_dot r2 (col n 1), row_dot r2 (col n 2))))"

definition vadd :: "vec3 \<Rightarrow> vec3 \<Rightarrow> vec3" where
  "vadd u v = (case u of (a, b, c) \<Rightarrow> case v of (x, y, z) \<Rightarrow> (a + x, b + y, c + z))"

definition scale :: "real \<Rightarrow> vec3 \<Rightarrow> vec3" where
  "scale k v = (case v of (x, y, z) \<Rightarrow> (k * x, k * y, k * z))"

definition eye3 :: mat3 where
  "eye3 = ((1, 0, 0), (0, 1, 0), (0, 0, 1))"

definition set_axis :: "vec3 \<Rightarrow> nat \<Rightarrow> real \<Rightarrow> vec3" where
  "set_axis r axis v = (case r of (x, y, z) \<Rightarrow>
     if axis = 0 then (v, y, z) else if axis = 1 then (x, v, z) else (x, y, v))"

section \<open>Forward kinematics: \<open>Joint.set_motion\<close>\<close>

text \<open>
  \<open>euler2mat\<close> (transforms3d) and \<open>np.deg2rad\<close> are library functions: they are the
  parameters \<open>e2m\<close> and \<open>d2r\<close> of the model.

  The loop of the non-root branch, over \<open>enumerate(self.limits)\<close>, with its local state
  \<open>idx\<close> and \<open>rotation\<close>. \<open>motion[self.name]\<close> is looked up only for an axis whose
  limits are not \<open>(0, 0)\<close>: a missing name raises KeyError there, a list that is too
  short raises IndexError.
\<close>

fun rotation_loop ::
  "frame \<Rightarrow> string \<Rightarrow> (nat \<times> limit) list \<Rightarrow> nat \<Rightarrow> vec3 \<Rightarrow> error + nat \<times> vec3" where
  "rotation_loop motion nm [] idx rotation = Inr (idx, rotation)"
| "rotation_loop motion nm ((axis, lm) # rest) idx rotation =
     (if lm \<noteq> (0, 0) then
        (case map_of motion nm of
           None \<Rightarrow> Inl (KeyError nm)
         | Some vals \<Rightarrow>
             if idx < length vals
             then rotation_loop motion nm rest (idx + 1) (set_axis rotation axis (vals ! idx))
             else Inl IndexError)
      else rotation_loop motion nm rest idx rotation)"

definition local_rotation ::
  "limit \<times> limit \<times> limit \<Rightarrow> frame \<Rightarrow> string \<Rightarrow> error + nat \<times> vec3" where
  "local_rotation lims motion nm =
     (case lims of (l0, l1, l2) \<Rightarrow>
        rotation_loop motion nm [(0, l0), (1, l1), (2, l2)] 0 (0, 0, 0))"

text \<open>
  The body of \<open>set_motion\<close> before the loop over the children: the joint's own coordinate
  and matrix. In the root branch \<open>np.reshape(..., [3, 1])\<close> raises ValueError when the
  root entry has fewer than three values, and \<open>euler2mat(*rotation)\<close> needs exactly
  three angles (with any other number of remaining values the call raises; the model
  reports TypeError). In the other branch the parent's matrix and coordinate are read:
  with no parent the attribute access raises AttributeError.
\<close>

definition pose ::
  "(real \<Rightarrow> real \<Rightarrow> real \<Rightarrow> mat3) \<Rightarrow> (real \<Rightarrow> real) \<Rightarrow> (vec3 \<times> mat3) option \<Rightarrow> joint \<Rightarrow> frame
     \<Rightarrow> error + vec3 \<times> mat3" where
  "pose e2m d2r parent j motion =
     (if name j = ''root'' then
        (case map_of motion ''root'' of
           None \<Rightarrow> Inl (KeyError ''root'')
         | Some vals \<Rightarrow>
             if length vals < 3 then Inl ValueError
             else (case drop 3 vals of
                     [a, b, c] \<Rightarrow>
                       Inr ((vals ! 0, vals ! 1, vals ! 2),
                            dot (dot (C j) (e2m (d2r a) (d2r b) (d2r c))) (Cinv j))
                   | _ \<Rightarrow> Inl TypeError))
      else
        (case local_rotation (limits j) motion (name j) of
           Inl e \<Rightarrow> Inl e
         | Inr (idx, (rx, ry, rz)) \<Rightarrow>
             (case parent of
                None \<Rightarrow> Inl AttributeError
              | Some (pcoord, pmatrix) \<Rightarrow>
                  let m = dot (dot (dot pmatrix (C j)) (e2m (d2r rx) (d2r ry) (d2r rz))) (Cinv j)
                  in Inr (vadd pcoord (scale (length_j j) (dot_vec m (direction j))), m))))"

text \<open>
  \<open>set_motion\<close>: the joint's own state, then \<open>child.set_motion(motion)\<close> for each child
  in order. The first exception aborts the whole call; the model then returns the error
  alone, without the joints that were already updated when it was raised.
\<close>

fun set_motion ::
  "(real \<Rightarrow> real \<Rightarrow> real \<Rightarrow> mat3) \<Rightarrow> (real \<Rightarrow> real) \<Rightarrow> (vec3 \<times> mat3) option \<Rightarrow> joint \<Rightarrow> frame
     \<Rightarrow> error + joint"
and set_motion_children ::
  "(real \<Rightarrow> real \<Rightarrow> real \<Rightarrow> mat3) \<Rightarrow> (real \<Rightarrow> real) \<Rightarrow> vec3 \<times> mat3 \<Rightarrow> joint list \<Rightarrow> frame
     \<Rightarrow> error + joint list" where
  "set_motion e2m d2r parent (Joint nm dir len c cinv lims ch co mx) motion =
     (case pose e2m d2r parent (Joint nm dir len c cinv lims ch co mx) motion of
        Inl e \<Rightarrow> Inl e
      | Inr (coord, m) \<Rightarrow>
          (case set_motion_children e2m d2r (coord, m) ch motion of
             Inl e \<Rightarrow> Inl e
           | Inr ch' \<Rightarrow> Inr (Joint nm dir len c cinv lims ch' (Some coord) (Some m))))"
| "set_motion_children e2m d2r p [] motion = Inr []"
| "set_motion_children e2m d2r p (child # rest) motion =
     (case set_motion e2m d2r (Some p) child motion of
        Inl e \<Rightarrow> Inl e
      | Inr child' \<Rightarrow>
          (case set_motion_children e2m d2r p rest motion of
             Inl e \<Rightarrow> Inl e
           | Inr rest' \<Rightarrow> Inr (child' # rest')))"


text \<open>
  The joints reachable from a joint through \<open>children\<close> (itself first), and the static
  part of a skeleton: the same tree with the per-frame state cleared.
\<close>

fun reachable :: "joint \<Rightarrow> joint list" where
  "reachable (Joint nm dir len c cinv lims ch co mx) =
     Joint nm dir len c cinv lims ch co mx # concat (map reachable ch)"

fun static :: "joint \<Rightarrow> joint" where
  "static (Joint nm dir len c cinv lims ch co mx) =
     Joint nm dir len c cinv lims (map static ch) None None"

section \<open>\<open>Joint.__init__\<close>\<close>









section \<open>Library instances\<close>

text \<open>
  Instances of the library parameters over the reals, on which the model can be run:
  \<open>np.deg2rad\<close>, \<open>euler2mat\<close> in its default static x-y-z convention, and the inverse of
  a 3x3 matrix by its adjugate. The theorems about \<open>set_motion\<close> hold for every \<open>e2m\<close>
  and \<open>d2r\<close>.
\<close>

definition deg2rad :: "real \<Rightarrow> real" where
  "deg2rad x = x * pi / 180"

definition euler2mat :: "real \<Rightarrow> real \<Rightarrow> real \<Rightarrow> mat3" where
  "euler2mat ai aj ak =
     (let si = sin ai; sj = sin aj; sk = sin ak;
          ci = cos ai; cj = cos aj; ck = cos ak;
          cc = ci * ck; cs = ci * sk; sc = si * ck; ss = si * sk
      in ((cj * ck, sj * sc - cs, sj * cc + ss),
          (cj * sk, sj * ss + cc, sj * cs - sc),
          (- sj, cj * si, cj * ci)))"



section \<open>Motion parser: \<open>parse_amc\<close>\<close>

text \<open>
  The input is \<open>content\<close>, the list of lines that \<open>f.read().splitlines()\<close> returns.
  Characters are code points below 256. \<open>isspace\<close> is the whitespace that
  \<open>str.strip\<close> and \<open>str.split\<close> remove, \<open>isnumeric\<close> is \<open>str.isnumeric\<close>: the
  string is not empty and every character is a digit or one of the superscript and
  fraction characters. The builtin \<open>float\<close> is the parameter \<open>pyfloat\<close> (\<open>None\<close>
  where it raises ValueError).
\<close>

definition isspace :: "char \<Rightarrow> bool" where
  "isspace c = (of_char c \<in> {9, 10, 11, 12, 13, 28, 29, 30, 31, 32, 133, 160 :: nat})"

definition strip :: "string \<Rightarrow> string" where
  "strip s = rev (dropWhile isspace (rev (dropWhile isspace s)))"

fun split_from :: "string \<Rightarrow> string \<Rightarrow> string list" where
  "split_from [] cur = (if cur = [] then [] else [cur])"
| "split_from (c # cs) cur =
     (if isspace c then (if cur = [] then split_from cs [] else cur # split_from cs [])
      else split_from cs (cur @ [c]))"

definition split :: "string \<Rightarrow> string list" where
  "split s = split_from s []"

definition isnumeric :: "string \<Rightarrow> bool" where
  "isnumeric s = (s \<noteq> [] \<and>
     list_all (\<lambda>c. c \<in> set ''0123456789'' \<or> of_char c \<in> {178, 179, 185, 188, 189, 190 :: nat}) s)"

fun list_index :: "'a list \<Rightarrow> 'a \<Rightarrow> nat option" where
  "list_index [] x = None"
| "list_index (y # ys) x = (if y = x then Some 0 else map_option Suc (list_index ys x))"

text \<open>
  The \<open>while\<close> loop over the lines with its state \<open>current_frame\<close> and \<open>frames\<close>; the
  empty list of lines is the code after the loop.
\<close>

fun amc_loop ::
  "(string \<Rightarrow> real option) \<Rightarrow> string list \<Rightarrow> frame \<Rightarrow> frame list \<Rightarrow> error + frame list" where
  "amc_loop pyfloat [] current_frame frames =
     Inr (if current_frame \<noteq> [] then frames @ [current_frame] else frames)"
| "amc_loop pyfloat (l # content) current_frame frames =
     (case split (strip l) of
        [] \<Rightarrow> amc_loop pyfloat content current_frame frames
      | key # args \<Rightarrow>
          if isnumeric key then
            (if current_frame \<noteq> [] then amc_loop pyfloat content [] (frames @ [current_frame])
             else amc_loop pyfloat content current_frame frames)
          else
            (case those (map pyfloat args) of
               None \<Rightarrow> Inl ValueError
             | Some vals \<Rightarrow> amc_loop pyfloat content (dict_set current_frame key vals) frames))"

definition parse_amc :: "(string \<Rightarrow> real option) \<Rightarrow> string list \<Rightarrow> error + frame list" where
  "parse_amc pyfloat content =
     (case list_index content '':DEGREES'' of
        None \<Rightarrow> Inl ValueError
      | Some i \<Rightarrow> amc_loop pyfloat (drop (i + 1) content) [] [])"

text \<open>A line that the loop treats as a frame delimiter.\<close>

definition is_delimiter :: "string \<Rightarrow> bool" where
  "is_delimiter l = (case split (strip l) of [] \<Rightarrow> False | key # args \<Rightarrow> isnumeric key)"

text \<open>An instance of \<open>pyfloat\<close> that reads unsigned decimal integers only.\<close>

definition float_digits :: "string \<Rightarrow> real option" where
  "float_digits s =
     (if s \<noteq> [] \<and> list_all (\<lambda>c. c \<in> set ''0123456789'') s
      then Some (real (foldl (\<lambda>n c. 10 * n + (of_char c - 48)) 0 s))
      else None)"

section \<open>Frame iteration drivers\<close>

text \<open>
  \<open>motions[frame_idx]\<close> is Python indexing: a negative index counts from the end.
  \<open>update_3d_scene\<close> applies the frame to \<open>joints['root']\<close>; the coordinates it hands
  to the plot are read from the updated joints.
\<close>

definition py_index :: "'a list \<Rightarrow> int \<Rightarrow> error + 'a" where
  "py_index xs i =
     (let n = int (length xs); k = (if i < 0 then n + i else i)
      in if 0 \<le> k \<and> k < n then Inr (xs ! nat k) else Inl IndexError)"

definition update_3d_scene ::
  "(real \<Rightarrow> real \<Rightarrow> real \<Rightarrow> mat3) \<Rightarrow> (real \<Rightarrow> real) \<Rightarrow> joint \<Rightarrow> frame list \<Rightarrow> int
     \<Rightarrow> error + joint" where
  "update_3d_scene e2m d2r joints motions frame_idx =
     (case py_index motions frame_idx of
        Inl e \<Rightarrow> Inl e
      | Inr motion \<Rightarrow> set_motion e2m d2r None joints motion)"

text \<open>
  \<open>FuncAnimation(fig, update, frames=n)\<close> calls \<open>update(i)\<close> for \<open>i = 0, ..., n - 1\<close>
  in order; each call mutates the joints. The result is the state of the joints after
  each call. (The library's extra initial draw of the first frame and the looping of a
  live animation are left out.)
\<close>

fun run_updates :: "(joint \<Rightarrow> int \<Rightarrow> error + joint) \<Rightarrow> joint \<Rightarrow> int list \<Rightarrow> error + joint list" where
  "run_updates update joints [] = Inr []"
| "run_updates update joints (i # rest) =
     (case update joints i of
        Inl e \<Rightarrow> Inl e
      | Inr joints' \<Rightarrow>
          (case run_updates update joints' rest of
             Inl e \<Rightarrow> Inl e
           | Inr states \<Rightarrow> Inr (joints' # states)))"

definition FuncAnimation :: "(joint \<Rightarrow> int \<Rightarrow> error + joint) \<Rightarrow> nat \<Rightarrow> joint \<Rightarrow> error + joint list" where
  "FuncAnimation update n joints = run_updates update joints (map int [0..<n])"

definition range_py :: "int \<Rightarrow> int \<Rightarrow> int list" where
  "range_py start stop = [start..stop - 1]"

definition clamp_end :: "frame list \<Rightarrow> int option \<Rightarrow> int" where
  "clamp_end motions end_frame =
     (case end_frame of
        None \<Rightarrow> int (length motions)
      | Some e \<Rightarrow> if e > int (length motions) then int (length motions) else e)"

definition create_3d_animation ::
  "(real \<Rightarrow> real \<Rightarrow> real \<Rightarrow> mat3) \<Rightarrow> (real \<Rightarrow> real) \<Rightarrow> joint \<Rightarrow> frame list \<Rightarrow> int \<Rightarrow> int option
     \<Rightarrow> error + joint list" where
  "create_3d_animation e2m d2r joints motions start_frame end_frame =
     (let frames_to_show = range_py start_frame (clamp_end motions end_frame)
      in FuncAnimation (\<lambda>js i. update_3d_scene e2m d2r js motions i)
           (length frames_to_show) joints)"

definition create_animation ::
  "(real \<Rightarrow> real \<Rightarrow> real \<Rightarrow> mat3) \<Rightarrow> (real \<Rightarrow> real) \<Rightarrow> int list \<Rightarrow> joint \<Rightarrow> frame list
     \<Rightarrow> error + joint list" where
  "create_animation e2m d2r frames joints motions =
     FuncAnimation (\<lambda>js i. update_3d_scene e2m d2r js motions (frames ! nat i))
       (length frames) joints"

text \<open>
  The frame list that \<open>create_mocap_dashboard\<close> builds and passes to
  \<open>create_animation\<close>.
\<close>

definition dashboard_frames :: "frame list \<Rightarrow> int \<Rightarrow> int option \<Rightarrow> int list" where
  "dashboard_frames motions start_frame end_frame =
     range_py start_frame (clamp_end motions end_frame)"


section \<open>Example inputs\<close>

text \<open>
  A skeleton on which the model is run: \<open>root\<close> with two children, \<open>j1\<close> with a
  single degree of freedom about z and \<open>j3\<close> with none, and \<open>j2\<close> below \<open>j1\<close>
  with none; all axis frames are the identity. Frame \<open>frame_a\<close> turns \<open>j1\<close> by 90
  degrees.
\<close>

definition no_limits :: "limit \<times> limit \<times> limit" where
  "no_limits = ((0, 0), (0, 0), (0, 0))"

definition skel_j2 :: joint where
  "skel_j2 = Joint ''j2'' (1, 0, 0) 5 eye3 eye3 no_limits [] None None"

definition skel_j1 :: joint where
  "skel_j1 = Joint ''j1'' (0, 1, 0) 10 eye3 eye3 ((0, 0), (0, 0), (- 180, 180)) [skel_j2] None None"

definition skel_j3 :: joint where
  "skel_j3 = Joint ''j3'' (0, 0, 1) 2 eye3 eye3 no_limits [] None None"

definition skel :: joint where
  "skel = Joint ''root'' (0, 0, 0) 0 eye3 eye3 no_limits [skel_j1, skel_j3] None None"

definition frame_a :: frame where
  "frame_a = [(''root'', [1, 2, 3, 0, 0, 0]), (''j1'', [90])]"

text \<open>The same frame without the entry of \<open>j1\<close>, and with an entry for a joint that
  the skeleton does not have.\<close>

definition frame_missing :: frame where
  "frame_missing = [(''root'', [1, 2, 3, 0, 0, 0])]"

definition frame_extra :: frame where
  "frame_extra = dict_set frame_a ''ghost'' [5]"

definition rot_z90 :: mat3 where
  "rot_z90 = ((0, - 1, 0), (1, 0, 0), (0, 0, 1))"

definition posed_j2 :: joint where
  "posed_j2 = Joint ''j2'' (1, 0, 0) 5 eye3 eye3 no_limits [] (Some (- 9, 7, 3)) (Some rot_z90)"

definition posed_j1 :: joint where
  "posed_j1 = Joint ''j1'' (0, 1, 0) 10 eye3 eye3 ((0, 0), (0, 0), (- 180, 180)) [posed_j2]
     (Some (- 9, 2, 3)) (Some rot_z90)"

definition posed_j3 :: joint where
  "posed_j3 = Joint ''j3'' (0, 0, 1) 2 eye3 eye3 no_limits [] (Some (1, 2, 5)) (Some eye3)"

definition posed :: joint where
  "posed = Joint ''root'' (0, 0, 0) 0 eye3 eye3 no_limits [posed_j1, posed_j3]
     (Some (1, 2, 3)) (Some eye3)"

text \<open>
  Motion files, as lists of lines: one whose only frame has a channel line for the joint
  \<open>ghost\<close>, and one in which frame 1 has no channel lines.
\<close>

definition amc_extra :: "string list" where
  "amc_extra = ['':DEGREES'', ''1'', ''root 1 2 3 0 0 0'', ''j1 90'', ''ghost 5'']"

definition amc_zero_channel :: "string list" where
  "amc_zero_channel = ['':DEGREES'', ''1'', ''2'', ''root 0 0 0 0 0 0'']"






text \<open>A skeleton of the root alone and three frames that move it.\<close>

definition root_only :: joint where
  "root_only = Joint ''root'' (0, 0, 0) 0 eye3 eye3 no_limits [] None None"

definition motions3 :: "frame list" where
  "motions3 = [[(''root'', [0, 0, 0, 0, 0, 0])], [(''root'', [1, 1, 1, 0, 0, 0])],
               [(''root'', [2, 2, 2, 0, 0, 0])]]"

section \<open>Properties of \<open>set_motion\<close>\<close>

lemma set_motion_InrD:
  assumes "set_motion e2m d2r parent j motion = Inr j'"
  shows "\<exists>coord m ch'. pose e2m d2r parent j motion = Inr (coord, m)
           \<and> set_motion_children e2m d2r (coord, m) (children j) motion = Inr ch'
           \<and> j' = Joint (name j) (direction j) (length_j j) (C j) (Cinv j) (limits j) ch'
                    (Some coord) (Some m)"
  using assms by (cases j) (auto split: sum.splits)

lemma set_motion_children_InrD:
  "set_motion_children e2m d2r p cs motion = Inr cs' \<Longrightarrow>
     list_all2 (\<lambda>c c'. set_motion e2m d2r (Some p) c motion = Inr c') cs cs'"
  by (induction cs arbitrary: cs') (auto split: sum.splits)


lemma list_all2_left_image:
  "list_all2 P xs ys \<Longrightarrow> x \<in> set xs \<Longrightarrow> \<exists>y\<in>set ys. P x y"
  by (induction rule: list_all2_induct) auto




lemma set_motion_root_coordinate:
  assumes "set_motion e2m d2r parent j motion = Inr j'" "name j = ''root''"
  shows "\<exists>x y z a b c. map_of motion ''root'' = Some [x, y, z, a, b, c]
           \<and> coordinate j' = Some (x, y, z)"
proof -
  from set_motion_InrD [OF assms(1)] obtain coord m ch' where
    p: "pose e2m d2r parent j motion = Inr (coord, m)" and
    c: "coordinate j' = Some coord"
    by auto
  from p assms(2) obtain vals a b c where
    v: "map_of motion ''root'' = Some vals" "\<not> length vals < 3" "drop 3 vals = [a, b, c]"
       "coord = (vals ! 0, vals ! 1, vals ! 2)"
    by (auto simp: pose_def split: option.splits if_splits list.splits)
  from v(2,3) have "vals = [vals ! 0, vals ! 1, vals ! 2, a, b, c]"
    by (cases vals; cases "tl vals"; cases "tl (tl vals)") auto
  with v c show ?thesis by metis
qed

lemma pose_static: "pose e2m d2r parent (static j) motion = pose e2m d2r parent j motion"
  by (cases j) (simp add: pose_def cong: option.case_cong list.case_cong sum.case_cong prod.case_cong if_cong)

lemma set_motion_children_cong:
  "(\<And>c p. c \<in> set ch \<Longrightarrow> set_motion e2m d2r p (f c) motion = set_motion e2m d2r p c motion) \<Longrightarrow>
   set_motion_children e2m d2r q (map f ch) motion = set_motion_children e2m d2r q ch motion"
  by (induction ch) (auto split: sum.splits)

lemma set_motion_static:
  "set_motion e2m d2r parent (static j) motion = set_motion e2m d2r parent j motion"
proof (induction j arbitrary: parent)
  case (Joint nm dir len cm cinv lims ch co mx)
  have p: "pose e2m d2r parent (Joint nm dir len cm cinv lims (map static ch) None None) motion
         = pose e2m d2r parent (Joint nm dir len cm cinv lims ch co mx) motion"
    by (simp add: pose_def cong: option.case_cong list.case_cong sum.case_cong prod.case_cong if_cong)
  have c: "set_motion_children e2m d2r q (map static ch) motion
         = set_motion_children e2m d2r q ch motion" for q
    by (rule set_motion_children_cong) (rule Joint.IH)
  show ?case by (simp add: p c cong: sum.case_cong prod.case_cong)
qed

lemma set_motion_visits:
  "set_motion e2m d2r parent j motion = Inr j' \<Longrightarrow> c \<in> set (reachable j) \<Longrightarrow>
   \<exists>par r. pose e2m d2r par c motion = Inr r"
proof (induction j arbitrary: parent j')
  case (Joint nm dir len cm cinv lims ch co mx)
  from set_motion_InrD [OF Joint.prems(1)] obtain coord m ch' where
    p: "pose e2m d2r parent (Joint nm dir len cm cinv lims ch co mx) motion = Inr (coord, m)" and
    ch: "set_motion_children e2m d2r (coord, m) ch motion = Inr ch'"
    by auto
  note all2 = set_motion_children_InrD [OF ch]
  from Joint.prems(2) consider (top) "c = Joint nm dir len cm cinv lims ch co mx"
    | (below) k where "k \<in> set ch" "c \<in> set (reachable k)"
    by auto
  then show ?case
  proof cases
    case top
    with p show ?thesis by blast
  next
    case below
    from list_all2_left_image [OF all2 below(1)] obtain k' where
      "set_motion e2m d2r (Some (coord, m)) k motion = Inr k'" by blast
    from Joint.IH [OF below(1) this below(2)] show ?thesis .
  qed
qed

lemma rotation_loop_missing:
  "map_of motion nm = None \<Longrightarrow> \<exists>lm\<in>snd ` set als. lm \<noteq> (0, 0) \<Longrightarrow>
   rotation_loop motion nm als idx rot = Inl (KeyError nm)"
proof (induction als arbitrary: idx rot)
  case Nil
  then show ?case by simp
next
  case (Cons a als)
  obtain axis lm where a: "a = (axis, lm)" by (cases a)
  show ?case
  proof (cases "lm = (0, 0)")
    case True
    with Cons.prems(2) a have "\<exists>lm\<in>snd ` set als. lm \<noteq> (0, 0)" by auto
    from Cons.IH [OF Cons.prems(1) this] show ?thesis using a True by simp
  next
    case False
    then show ?thesis using a Cons.prems(1) by simp
  qed
qed

lemma pose_missing_channel:
  assumes "name c \<noteq> ''root''" "limits c \<noteq> ((0, 0), (0, 0), (0, 0))" "map_of motion (name c) = None"
  shows "pose e2m d2r par c motion = Inl (KeyError (name c))"
proof -
  obtain l0 l1 l2 where l: "limits c = (l0, l1, l2)" by (cases "limits c") auto
  with assms(2) have "\<exists>lm\<in>snd ` set [(0::nat, l0), (1, l1), (2, l2)]. lm \<noteq> (0, 0)" by auto
  from rotation_loop_missing [OF assms(3) this]
  show ?thesis using assms(1) l by (simp add: pose_def local_rotation_def)
qed

lemma set_motion_missing_channel:
  assumes "c \<in> set (reachable j)" "name c \<noteq> ''root''"
    "limits c \<noteq> ((0, 0), (0, 0), (0, 0))" "map_of motion (name c) = None"
  shows "\<exists>e. set_motion e2m d2r parent j motion = Inl e"
proof (cases "set_motion e2m d2r parent j motion")
  case (Inl e)
  then show ?thesis by blast
next
  case (Inr j')
  from set_motion_visits [OF Inr assms(1)] pose_missing_channel [OF assms(2,3,4)]
  show ?thesis by (metis sum.distinct(1))
qed

lemma map_of_dict_set: "map_of (dict_set m k v) = (map_of m)(k \<mapsto> v)"
  by (induction m) (auto simp: fun_eq_iff)

lemma rotation_loop_lookup:
  "map_of m1 nm = map_of m2 nm \<Longrightarrow>
   rotation_loop m1 nm als idx rot = rotation_loop m2 nm als idx rot"
proof (induction als arbitrary: idx rot)
  case Nil
  show ?case by simp
next
  case (Cons a als)
  then show ?case by (cases a) (simp split: option.splits)
qed

lemma pose_lookup:
  assumes "map_of m1 (name j) = map_of m2 (name j)"
  shows "pose e2m d2r par j m1 = pose e2m d2r par j m2"
proof (cases "name j = ''root''")
  case True
  with assms show ?thesis by (simp add: pose_def)
next
  case False
  have h: "rotation_loop m1 (name j) als idx rot = rotation_loop m2 (name j) als idx rot"
    for als idx rot
    by (rule rotation_loop_lookup [OF assms])
  have "local_rotation (limits j) m1 (name j) = local_rotation (limits j) m2 (name j)"
    by (cases "limits j" rule: prod_cases3) (simp only: local_rotation_def prod.case h)
  with False show ?thesis by (simp add: pose_def)
qed

lemma set_motion_children_lookup:
  "(\<And>c p. c \<in> set ch \<Longrightarrow> set_motion e2m d2r p c m1 = set_motion e2m d2r p c m2) \<Longrightarrow>
   set_motion_children e2m d2r q ch m1 = set_motion_children e2m d2r q ch m2"
  by (induction ch) (auto split: sum.splits)

lemma set_motion_lookup:
  "(\<And>n. n \<in> name ` set (reachable j) \<Longrightarrow> map_of m1 n = map_of m2 n) \<Longrightarrow>
   set_motion e2m d2r parent j m1 = set_motion e2m d2r parent j m2"
proof (induction j arbitrary: parent)
  case (Joint nm dir len cm cinv lims ch co mx)
  have p: "pose e2m d2r parent (Joint nm dir len cm cinv lims ch co mx) m1
         = pose e2m d2r parent (Joint nm dir len cm cinv lims ch co mx) m2"
    by (rule pose_lookup) (simp add: Joint.prems)
  have c: "set_motion_children e2m d2r q ch m1 = set_motion_children e2m d2r q ch m2" for q
  proof (rule set_motion_children_lookup)
    fix c p assume c: "c \<in> set ch"
    show "set_motion e2m d2r p c m1 = set_motion e2m d2r p c m2"
    proof (rule Joint.IH [OF c])
      fix n assume "n \<in> name ` set (reachable c)"
      with c show "map_of m1 n = map_of m2 n" by (intro Joint.prems) auto
    qed
  qed
  show ?case by (simp add: p c cong: sum.case_cong prod.case_cong)
qed




lemma euler2mat_zero: "euler2mat (deg2rad 0) (deg2rad 0) (deg2rad 0) = eye3"
  by (simp add: euler2mat_def deg2rad_def eye3_def)

lemma euler2mat_z90: "euler2mat (deg2rad 0) (deg2rad 0) (deg2rad 90) = rot_z90"
  by (simp add: euler2mat_def deg2rad_def rot_z90_def)

lemma set_motion_skel_frame_a: "set_motion euler2mat deg2rad None skel frame_a = Inr posed"
  by (simp add: skel_def skel_j1_def skel_j2_def skel_j3_def frame_a_def posed_def posed_j1_def posed_j2_def posed_j3_def
      pose_def local_rotation_def set_axis_def no_limits_def euler2mat_zero euler2mat_z90
      dot_def dot_vec_def row_dot_def col_def vadd_def scale_def eye3_def rot_z90_def)



section \<open>Claims about forward kinematics\<close>



text \<open>
  Claim C3. After a frame has been applied to the root joint, the root's world position is
  exactly the first three values of the frame's \<open>root\<close> entry: they are not scaled, and
  neither the rotation values nor \<open>C\<close> enter.
\<close>

theorem set_motion_root_translation:
  assumes "set_motion e2m d2r parent j motion = Inr j'" and "name j = ''root''"
  shows "\<exists>x y z a b c. map_of motion ''root'' = Some [x, y, z, a, b, c]
           \<and> coordinate j' = Some (x, y, z)"
  using assms by (rule set_motion_root_coordinate)

theorem set_motion_root_translation_witness:
  "set_motion euler2mat deg2rad None skel frame_a = Inr posed \<and> name skel = ''root''
   \<and> coordinate posed = Some (1, 2, 3)
   \<and> (\<exists>x y z a b c. map_of frame_a ''root'' = Some [x, y, z, a, b, c]
           \<and> coordinate posed = Some (x, y, z))"
proof -
  have h1: "set_motion euler2mat deg2rad None skel frame_a = Inr posed"
    by (rule set_motion_skel_frame_a)
  have h2: "name skel = ''root''" by (simp add: skel_def)
  have h3: "coordinate posed = Some (1, 2, 3)" by (simp add: posed_def)
  from set_motion_root_translation [OF h1 h2] h1 h2 h3 show ?thesis by blast
qed



text \<open>
  Claim C6. Applying a frame is a function of the skeleton's static part and the frame: two
  skeletons with the same tree and the same static fields, whatever their earlier world state,
  give the same result for the same frame, the same world coordinates and matrices for every
  joint or the same error.
\<close>

theorem set_motion_deterministic:
  assumes "static j1 = static j2"
  shows "set_motion e2m d2r parent j1 motion = set_motion e2m d2r parent j2 motion"
proof -
  have "set_motion e2m d2r parent j1 motion = set_motion e2m d2r parent (static j1) motion"
    by (rule set_motion_static [symmetric])
  also have "\<dots> = set_motion e2m d2r parent (static j2) motion"
    by (simp only: assms)
  also have "\<dots> = set_motion e2m d2r parent j2 motion"
    by (rule set_motion_static)
  finally show ?thesis .
qed

theorem set_motion_deterministic_witness:
  "static skel = static posed \<and> skel \<noteq> posed
   \<and> set_motion euler2mat deg2rad None skel frame_a = set_motion euler2mat deg2rad None posed frame_a
   \<and> set_motion euler2mat deg2rad None posed frame_a = Inr posed"
proof -
  have h1: "static skel = static posed"
    by (simp add: skel_def skel_j1_def skel_j2_def skel_j3_def posed_def posed_j1_def posed_j2_def posed_j3_def)
  have h2: "skel \<noteq> posed" by (simp add: skel_def posed_def)
  from set_motion_deterministic [OF h1, of euler2mat deg2rad None frame_a] h1 h2 set_motion_skel_frame_a
  show ?thesis by simp
qed

text \<open>
  Claim C7. If a reachable joint that is not the root has a nonzero limits pair on some axis and
  the frame has no entry under its name, applying the frame ends in an error: no default value
  is substituted.
\<close>

theorem missing_channel_is_error:
  assumes "c \<in> set (reachable j)" and "name c \<noteq> ''root''"
    and "limits c \<noteq> ((0, 0), (0, 0), (0, 0))" and "map_of motion (name c) = None"
  shows "\<exists>e. set_motion e2m d2r parent j motion = Inl e"
  using assms by (rule set_motion_missing_channel)

theorem missing_channel_is_error_witness:
  "skel_j1 \<in> set (reachable skel) \<and> name skel_j1 \<noteq> ''root''
   \<and> limits skel_j1 \<noteq> ((0, 0), (0, 0), (0, 0))
   \<and> map_of frame_missing (name skel_j1) = None
   \<and> (\<exists>e. set_motion euler2mat deg2rad None skel frame_missing = Inl e)
   \<and> set_motion euler2mat deg2rad None skel frame_missing = Inl (KeyError ''j1'')"
proof -
  have h1: "skel_j1 \<in> set (reachable skel)" by (simp add: skel_def skel_j1_def)
  have h2: "name skel_j1 \<noteq> ''root''" by (simp add: skel_j1_def)
  have h3: "limits skel_j1 \<noteq> ((0, 0), (0, 0), (0, 0))" by (simp add: skel_j1_def)
  have h4: "map_of frame_missing (name skel_j1) = None"
    by (simp add: skel_j1_def frame_missing_def)
  have h5: "set_motion euler2mat deg2rad None skel frame_missing = Inl (KeyError ''j1'')"
    by (simp add: skel_def skel_j1_def skel_j2_def skel_j3_def pose_def local_rotation_def no_limits_def
        frame_missing_def euler2mat_zero
        dot_def dot_vec_def row_dot_def col_def vadd_def scale_def eye3_def)
  from missing_channel_is_error [OF h1 h2 h3 h4, of euler2mat deg2rad None] h1 h2 h3 h4 h5 show ?thesis by blast
qed

section \<open>Claim about the channel-to-axis mapping\<close>













section \<open>Claim about the frame iteration drivers\<close>

text \<open>
  Claim C5 does not hold of \<open>create_3d_animation\<close>. Its \<open>update(i)\<close> passes the
  animation counter \<open>i\<close> itself to \<open>update_3d_scene\<close>, so for the range [1, 3) of a
  sequence of three frames it applies frames 0 and 1; \<open>create_animation\<close>, which passes
  \<open>frames[i]\<close>, applies frames 1 and 2 of the same range. The root coordinates after each
  update show which frame was applied.
\<close>

theorem create_3d_animation_ignores_start:
  "dashboard_frames motions3 1 (Some 3) = [1, 2]
   \<and> map_sum id (map coordinate) (create_3d_animation euler2mat deg2rad root_only motions3 1 (Some 3))
       = Inr [Some (0, 0, 0), Some (1, 1, 1)]
   \<and> map_sum id (map coordinate)
        (create_animation euler2mat deg2rad (dashboard_frames motions3 1 (Some 3)) root_only motions3)
       = Inr [Some (1, 1, 1), Some (2, 2, 2)]"
  by (simp add: create_3d_animation_def create_animation_def dashboard_frames_def FuncAnimation_def
      range_py_def clamp_end_def motions3_def root_only_def update_3d_scene_def py_index_def
      pose_def no_limits_def euler2mat_zero upto.simps upt_rec Let_def
      dot_def dot_vec_def row_dot_def col_def eye3_def)

section \<open>Claims about the motion parser\<close>

lemma amc_loop_skip_delimiter:
  "is_delimiter d \<Longrightarrow> amc_loop pyfloat (d # rest) [] frames = amc_loop pyfloat rest [] frames"
  by (auto simp: is_delimiter_def split: list.splits)

lemma amc_loop_double_delimiter:
  assumes "is_delimiter d1" "is_delimiter d2"
  shows "amc_loop pyfloat (pre @ d1 # d2 # post) cur frames
       = amc_loop pyfloat (pre @ d2 # post) cur frames"
proof (induction pre arbitrary: cur frames)
  case Nil
  from assms show ?case by (auto simp: is_delimiter_def split: list.splits)
next
  case (Cons l pre)
  then show ?case by (simp split: list.splits option.splits)
qed

lemma list_index_append:
  "\<exists>i pre'. \<forall>rest. list_index (hdr @ x # rest) x = Some i \<and> drop (i + 1) (hdr @ x # rest) = pre' @ rest"
proof (induction hdr)
  case Nil
  show ?case by (rule exI [of _ 0], rule exI [of _ "[]"]) simp
next
  case (Cons h hdr)
  then obtain i pre' where
    ih: "\<And>rest. list_index (hdr @ x # rest) x = Some i \<and> drop (i + 1) (hdr @ x # rest) = pre' @ rest"
    by blast
  show ?case
  proof (cases "h = x")
    case True
    show ?thesis
      by (rule exI [of _ 0], rule exI [of _ "hdr @ [x]"]) (simp add: True)
  next
    case False
    have "list_index ((h # hdr) @ x # rest) x = Some (Suc i)
        \<and> drop (Suc i + 1) ((h # hdr) @ x # rest) = pre' @ rest" for rest
      using ih [of rest] False by (simp del: drop_append)
    then show ?thesis by blast
  qed
qed

lemma is_delimiter_1: "is_delimiter ''1''"
  by (simp add: is_delimiter_def split_def strip_def isspace_def isnumeric_def)

lemma is_delimiter_2: "is_delimiter ''2''"
  by (simp add: is_delimiter_def split_def strip_def isspace_def isnumeric_def)

lemma amc_loop_frames_nonempty:
  "amc_loop pyfloat content cur frames = Inr out \<Longrightarrow> \<forall>fr\<in>set frames. fr \<noteq> [] \<Longrightarrow>
   \<forall>fr\<in>set out. fr \<noteq> []"
proof (induction content arbitrary: cur frames)
  case Nil
  then show ?case by (auto split: if_splits)
next
  case (Cons l content)
  show ?case
  proof (cases "split (strip l)")
    case Nil
    with Cons show ?thesis by simp
  next
    case (Cons key args)
    show ?thesis
    proof (cases "isnumeric key")
      case True
      show ?thesis
      proof (cases "cur = []")
        case True
        with Cons.prems Cons.IH [of cur frames] \<open>isnumeric key\<close> \<open>split (strip l) = key # args\<close>
        show ?thesis by simp
      next
        case False
        with Cons.prems Cons.IH [of "[]" "frames @ [cur]"] \<open>isnumeric key\<close>
          \<open>split (strip l) = key # args\<close>
        show ?thesis by simp
      qed
    next
      case False
      with Cons.prems \<open>split (strip l) = key # args\<close> obtain vals where
        "those (map pyfloat args) = Some vals"
        "amc_loop pyfloat content (dict_set cur key vals) frames = Inr out"
        by (auto split: option.splits)
      with Cons.IH [of "dict_set cur key vals" frames] Cons.prems(2) show ?thesis by simp
    qed
  qed
qed

lemma set_motion_extra_entry:
  assumes "n \<notin> name ` set (reachable j)"
  shows "set_motion e2m d2r parent j (dict_set motion n vs) = set_motion e2m d2r parent j motion"
  by (rule set_motion_lookup) (use assms in \<open>auto simp: map_of_dict_set\<close>)

text \<open>
  Claim C8, as stated, fails. In a motion file where the delimiter line of frame 2 directly
  follows that of frame 1, the parser raises nothing: the guard \<open>if current_frame:\<close>
  skips the empty frame and the parse returns the one frame that has channel lines.
\<close>

theorem zero_channel_frame_counterexample:
  "is_delimiter ''1'' \<and> is_delimiter ''2''
   \<and> amc_zero_channel = '':DEGREES'' # ''1'' # ''2'' # [''root 0 0 0 0 0 0'']
   \<and> parse_amc float_digits amc_zero_channel = Inr [[(''root'', [0, 0, 0, 0, 0, 0])]]"
  by (simp add: amc_zero_channel_def parse_amc_def is_delimiter_def split_def strip_def isspace_def isnumeric_def float_digits_def)

text \<open>
  Claim C8, amended. A zero-channel frame is not rejected but skipped: where a delimiter line
  directly follows another after the \<open>:DEGREES\<close> line, the parse gives the same result, the
  same frames or the same error, as the text without the first of the two lines.
\<close>

theorem zero_channel_frame_skipped:
  assumes "is_delimiter d1" and "is_delimiter d2"
  shows "parse_amc pyfloat (hdr @ '':DEGREES'' # pre @ d1 # d2 # post)
       = parse_amc pyfloat (hdr @ '':DEGREES'' # pre @ d2 # post)"
proof -
  from list_index_append [of hdr "'':DEGREES''"] obtain i pre' where
    ih: "\<And>rest. list_index (hdr @ '':DEGREES'' # rest) '':DEGREES'' = Some i
           \<and> drop (i + 1) (hdr @ '':DEGREES'' # rest) = pre' @ rest"
    by blast
  have "parse_amc pyfloat (hdr @ '':DEGREES'' # pre @ d1 # d2 # post)
      = amc_loop pyfloat ((pre' @ pre) @ d1 # d2 # post) [] []"
    using ih [of "pre @ d1 # d2 # post"] by (simp add: parse_amc_def)
  also have "\<dots> = amc_loop pyfloat ((pre' @ pre) @ d2 # post) [] []"
    by (rule amc_loop_double_delimiter [OF assms])
  also have "\<dots> = parse_amc pyfloat (hdr @ '':DEGREES'' # pre @ d2 # post)"
    using ih [of "pre @ d2 # post"] by (simp add: parse_amc_def)
  finally show ?thesis .
qed

theorem zero_channel_frame_skipped_witness:
  "is_delimiter ''1'' \<and> is_delimiter ''2''
   \<and> parse_amc float_digits ([] @ '':DEGREES'' # [] @ ''1'' # ''2'' # [''root 0 0 0 0 0 0''])
     = parse_amc float_digits ([] @ '':DEGREES'' # [] @ ''2'' # [''root 0 0 0 0 0 0''])
   \<and> parse_amc float_digits ([] @ '':DEGREES'' # [] @ ''2'' # [''root 0 0 0 0 0 0''])
     = Inr [[(''root'', [0, 0, 0, 0, 0, 0])]]"
proof -
  have r: "parse_amc float_digits ([] @ '':DEGREES'' # [] @ ''2'' # [''root 0 0 0 0 0 0''])
     = Inr [[(''root'', [0, 0, 0, 0, 0, 0])]]"
    by (simp add: parse_amc_def split_def strip_def isspace_def isnumeric_def float_digits_def)
  from zero_channel_frame_skipped [OF is_delimiter_1 is_delimiter_2, of float_digits "[]" "[]" "[''root 0 0 0 0 0 0'']"] is_delimiter_1 is_delimiter_2 r
  show ?thesis by blast
qed

text \<open>
  Claim C9, as stated, fails in its second half. The file with a channel line for \<open>ghost\<close>
  parses, and applying its frame to the skeleton, which has no joint of that name, succeeds.
\<close>

theorem extra_channel_counterexample:
  "parse_amc float_digits amc_extra = Inr [frame_extra]
   \<and> map_of frame_extra ''ghost'' = Some [5]
   \<and> ''ghost'' \<notin> name ` set (reachable skel)
   \<and> set_motion euler2mat deg2rad None skel frame_extra = Inr posed"
proof -
  have "set_motion euler2mat deg2rad None skel frame_extra = Inr posed"
   by (simp add: skel_def skel_j1_def skel_j2_def skel_j3_def frame_a_def frame_extra_def posed_def posed_j1_def posed_j2_def posed_j3_def
      pose_def local_rotation_def set_axis_def no_limits_def euler2mat_zero euler2mat_z90 
      dot_def dot_vec_def row_dot_def col_def vadd_def scale_def eye3_def rot_z90_def)
  moreover have "parse_amc float_digits amc_extra = Inr [frame_extra]"
    by (simp add: amc_extra_def frame_extra_def frame_a_def parse_amc_def split_def strip_def isspace_def isnumeric_def float_digits_def)
  moreover have "map_of frame_extra ''ghost'' = Some [5]"
    by (simp add: frame_extra_def frame_a_def)
  moreover have "''ghost'' \<notin> name ` set (reachable skel)"
    by (simp add: skel_def skel_j1_def skel_j2_def skel_j3_def)
  ultimately show ?thesis by blast
qed

text \<open>
  Claim C9, amended. A channel line whose values are numbers is recorded under its joint name
  whatever the name is (the parser knows no skeleton), and applying a frame is not affected by
  an entry for a joint name that no reachable joint has: \<open>set_motion\<close> never looks the name
  up, and the result is the same as without that entry.
\<close>

theorem extra_channel_ignored:
  assumes "split (strip l) = n # args" and "\<not> isnumeric n"
    and "those (map pyfloat args) = Some vs"
    and "n \<notin> name ` set (reachable j)"
  shows "amc_loop pyfloat (l # content) cur frames
           = amc_loop pyfloat content (dict_set cur n vs) frames
       \<and> set_motion e2m d2r parent j (dict_set motion n vs) = set_motion e2m d2r parent j motion"
  using assms by (simp add: set_motion_extra_entry)

theorem extra_channel_ignored_witness:
  "split (strip ''ghost 5'') = ''ghost'' # [''5''] \<and> \<not> isnumeric ''ghost''
   \<and> those (map float_digits [''5'']) = Some [5]
   \<and> ''ghost'' \<notin> name ` set (reachable skel)
   \<and> amc_loop float_digits (''ghost 5'' # []) frame_a [] = amc_loop float_digits [] frame_extra []
   \<and> set_motion euler2mat deg2rad None skel frame_extra
       = set_motion euler2mat deg2rad None skel frame_a
   \<and> set_motion euler2mat deg2rad None skel frame_a = Inr posed"
proof -
  have h1: "split (strip ''ghost 5'') = ''ghost'' # [''5'']" by (simp add: split_def strip_def isspace_def isnumeric_def float_digits_def)
  have h2: "\<not> isnumeric ''ghost''" by (simp add: split_def strip_def isspace_def isnumeric_def float_digits_def)
  have h3: "those (map float_digits [''5'']) = Some [5]" by (simp add: split_def strip_def isspace_def isnumeric_def float_digits_def)
  have h4: "''ghost'' \<notin> name ` set (reachable skel)"
    by (simp add: skel_def skel_j1_def skel_j2_def skel_j3_def)
  from extra_channel_ignored [OF h1 h2 h3 h4, of "[]" frame_a "[]" euler2mat deg2rad None frame_a]
    h1 h2 h3 h4 set_motion_skel_frame_a
  show ?thesis by (simp add: frame_extra_def)
qed

text \<open>
  Claim C10. Every frame in the list that \<open>parse_amc\<close> returns is a non-empty dict, and a
  delimiter line that arrives while the current frame has no recorded channels changes
  nothing: nothing is appended and the loop goes on with the next line.
\<close>

theorem parse_amc_frames_nonempty:
  "(parse_amc pyfloat content = Inr frames \<longrightarrow> (\<forall>fr\<in>set frames. fr \<noteq> []))
   \<and> (is_delimiter d \<longrightarrow>
        amc_loop pyfloat (d # rest) [] acc = amc_loop pyfloat rest [] acc)"
proof
  show "parse_amc pyfloat content = Inr frames \<longrightarrow> (\<forall>fr\<in>set frames. fr \<noteq> [])"
    by (auto simp: parse_amc_def split: option.splits dest!: amc_loop_frames_nonempty)
  show "is_delimiter d \<longrightarrow> amc_loop pyfloat (d # rest) [] acc = amc_loop pyfloat rest [] acc"
    by (rule impI) (rule amc_loop_skip_delimiter)
qed

theorem parse_amc_frames_nonempty_witness:
  "parse_amc float_digits amc_zero_channel = Inr [[(''root'', [0, 0, 0, 0, 0, 0])]]
   \<and> list_all (\<lambda>fr. fr \<noteq> []) [[(''root'', [0, 0, 0, 0, 0, 0 :: real])]]
   \<and> is_delimiter ''1''
   \<and> amc_loop float_digits (''1'' # [''2'', ''root 0 0 0 0 0 0'']) [] []
     = amc_loop float_digits [''2'', ''root 0 0 0 0 0 0''] [] []"
proof -
  have p: "parse_amc float_digits amc_zero_channel = Inr [[(''root'', [0, 0, 0, 0, 0, 0])]]"
    by (simp add: amc_zero_channel_def parse_amc_def split_def strip_def isspace_def isnumeric_def float_digits_def)
  from parse_amc_frames_nonempty [of float_digits amc_zero_channel "[[(''root'', [0, 0, 0, 0, 0, 0])]]" "''1''"
      "[''2'', ''root 0 0 0 0 0 0'']" "[]"] p is_delimiter_1
  show ?thesis by (simp del: amc_loop.simps)
qed

end
